theory Spec2Isabelle
  imports Complex_Main
begin

section \<open>Air quality dashboard: the dataset generator and the rule-based AQI prediction\<close>

text \<open>
  The source is one Python script, \<^verbatim>\<open>Air_quality.py\<close>. Two parts of it compute:
  \<^item> \<^verbatim>\<open>load_data(n=200)\<close> (lines 10 to 32) seeds numpy's global random state with 42,
    draws nine columns of \<open>n\<close> values, adds a column of \<open>n\<close> daily dates and derives the
    \<^verbatim>\<open>AQI\<close> column;
  \<^item> the block under the \<^verbatim>\<open>Predict AQI\<close> button (lines 102 to 125) computes the
    prediction from the sidebar inputs and picks its category and colour.

  Python floats are modelled as \<open>real\<close>: arithmetic is exact, rounding is not modelled.
  Where a statement depends on a comparison at a boundary, it is made on the value the
  program computed (see \<open>categorise\<close>), not on the exact sum of the inputs. Python's \<^verbatim>\<open>ValueError\<close> is the only exception the modelled
  code can meet.
\<close>

datatype error = ValueError

subsection \<open>numpy's random state, taken as a parameter\<close>

text \<open>
  \<^verbatim>\<open>np.random\<close> is a library, not code of the repository: its generator is a parameter of
  the model. \<open>'g\<close> is the type of the global random state. \<open>seed s\<close> is the state that
  \<^verbatim>\<open>np.random.seed(s)\<close> installs (it does not depend on the state before),
  \<open>randint lo hi k g\<close> are the \<open>k\<close> integers that \<^verbatim>\<open>np.random.randint(lo, hi, k)\<close> draws
  from state \<open>g\<close> with the state after, and \<open>uniform\<close> likewise for
  \<^verbatim>\<open>np.random.uniform(lo, hi, k)\<close>.
\<close>

record 'g np_random =
  seed :: "int \<Rightarrow> 'g"
  randint :: "int \<Rightarrow> int \<Rightarrow> nat \<Rightarrow> 'g \<Rightarrow> int list \<times> 'g"
  uniform :: "real \<Rightarrow> real \<Rightarrow> nat \<Rightarrow> 'g \<Rightarrow> real list \<times> 'g"

text \<open>
  What numpy documents of the two samplers: \<open>k\<close> values, each in the half-open interval
  from \<open>lo\<close> (included) to \<open>hi\<close> (excluded).
\<close>

definition np_contract :: "'g np_random \<Rightarrow> bool" where
  "np_contract np \<longleftrightarrow>
     (\<forall>lo hi k g. lo < hi \<longrightarrow>
        length (fst (randint np lo hi k g)) = k \<and>
        (\<forall>x \<in> set (fst (randint np lo hi k g)). lo \<le> x \<and> x < hi)) \<and>
     (\<forall>lo hi k g. lo < hi \<longrightarrow>
        length (fst (uniform np lo hi k g)) = k \<and>
        (\<forall>x \<in> set (fst (uniform np lo hi k g)). lo \<le> x \<and> x < hi))"

text \<open>
  A computation on the global random state that may raise: the result or the error,
  and the state it leaves.
\<close>

type_synonym ('a, 'g) np = "'g \<Rightarrow> (error + 'a) \<times> 'g"

definition np_bind :: "('a, 'g) np \<Rightarrow> ('a \<Rightarrow> ('b, 'g) np) \<Rightarrow> ('b, 'g) np" where
  "np_bind m f g = (case m g of (Inl e, g') \<Rightarrow> (Inl e, g') | (Inr a, g') \<Rightarrow> f a g')"

definition np_return :: "error + 'a \<Rightarrow> ('a, 'g) np" where
  "np_return r g = (r, g)"

text \<open>\<^verbatim>\<open>np.random.seed(s)\<close>: numpy accepts a seed between 0 and \<open>2^32 - 1\<close>.\<close>

definition np_seed :: "'g np_random \<Rightarrow> int \<Rightarrow> (unit, 'g) np" where
  "np_seed np s g =
     (if 0 \<le> s \<and> s < 2 ^ 32 then (Inr (), seed np s) else (Inl ValueError, g))"

text \<open>
  \<^verbatim>\<open>np.random.randint(lo, hi, n)\<close>: a negative size and an empty range \<open>hi \<le> lo\<close> raise
  \<^verbatim>\<open>ValueError\<close> before anything is drawn.
\<close>

definition np_randint :: "'g np_random \<Rightarrow> int \<Rightarrow> int \<Rightarrow> int \<Rightarrow> (int list, 'g) np" where
  "np_randint np lo hi n g =
     (if n < 0 \<or> hi \<le> lo then (Inl ValueError, g)
      else case randint np lo hi (nat n) g of (xs, g') \<Rightarrow> (Inr xs, g'))"

text \<open>\<^verbatim>\<open>np.random.uniform(lo, hi, n)\<close>: a negative size raises \<^verbatim>\<open>ValueError\<close>.\<close>

definition np_uniform :: "'g np_random \<Rightarrow> real \<Rightarrow> real \<Rightarrow> int \<Rightarrow> (real list, 'g) np" where
  "np_uniform np lo hi n g =
     (if n < 0 then (Inl ValueError, g)
      else case uniform np lo hi (nat n) g of (xs, g') \<Rightarrow> (Inr xs, g'))"

subsection \<open>Calendar dates and \<^verbatim>\<open>pd.date_range\<close>\<close>

text \<open>A date is (year, month, day) in the Gregorian calendar.\<close>

type_synonym date = "nat \<times> nat \<times> nat"

definition leap_year :: "nat \<Rightarrow> bool" where
  "leap_year y =
     (if y mod 400 = 0 then True else if y mod 100 = 0 then False else y mod 4 = 0)"

definition days_in_month :: "nat \<Rightarrow> nat \<Rightarrow> nat" where
  "days_in_month y m =
     (if m = 2 then (if leap_year y then 29 else 28)
      else if m = 4 \<or> m = 6 \<or> m = 9 \<or> m = 11 then 30
      else 31)"

fun next_day :: "date \<Rightarrow> date" where
  "next_day (y, m, d) =
     (if d < days_in_month y m then (y, m, d + 1)
      else if m < 12 then (y, m + 1, 1)
      else (y + 1, 1, 1))"

text \<open>The chronological order of dates.\<close>

fun date_less :: "date \<Rightarrow> date \<Rightarrow> bool" where
  "date_less (y, m, d) (y', m', d') =
     (if y = y' then (if m = m' then d < d' else m < m') else y < y')"

fun days_from :: "date \<Rightarrow> nat \<Rightarrow> date list" where
  "days_from d 0 = []"
| "days_from d (Suc k) = d # days_from (next_day d) k"

text \<open>
  \<^verbatim>\<open>pd.date_range(start, periods=n, freq="D")\<close>: \<open>n\<close> consecutive days from \<open>start\<close>;
  a negative number of periods raises \<^verbatim>\<open>ValueError\<close>.
\<close>

definition date_range :: "date \<Rightarrow> int \<Rightarrow> error + date list" where
  "date_range start periods =
     (if periods < 0 then Inl ValueError else Inr (days_from start (nat periods)))"

subsection \<open>The data frame\<close>

text \<open>
  The dictionary \<^verbatim>\<open>data\<close> of \<^verbatim>\<open>load_data\<close>, one list per column. The integer columns are
  those drawn with \<^verbatim>\<open>randint\<close>. The column \<^verbatim>\<open>PM2.5\<close> is the field \<open>PM25\<close>.
\<close>

record data =
  PM25 :: "int list"
  PM10 :: "int list"
  NO2 :: "int list"
  SO2 :: "int list"
  CO :: "real list"
  O3 :: "int list"
  Temperature :: "real list"
  Humidity :: "real list"
  Wind :: "real list"
  date :: "date list"

text \<open>The frame returned by \<^verbatim>\<open>load_data\<close>: the ten columns and \<^verbatim>\<open>AQI\<close>.\<close>

record dataframe = data +
  AQI :: "real list"

text \<open>
  \<^verbatim>\<open>pd.DataFrame(data)\<close> raises \<^verbatim>\<open>ValueError\<close> unless all the columns have one length.
\<close>

definition DataFrame :: "data \<Rightarrow> error + data" where
  "DataFrame d =
     (let k = length (PM25 d) in
      if length (PM10 d) = k \<and> length (NO2 d) = k \<and> length (SO2 d) = k \<and>
         length (CO d) = k \<and> length (O3 d) = k \<and> length (Temperature d) = k \<and>
         length (Humidity d) = k \<and> length (Wind d) = k \<and> length (date d) = k
      then Inr d else Inl ValueError)"

text \<open>
  Arithmetic on the columns of one frame (they share the index, so it is element by
  element): an integer column times a float, a float column times a number, the sum of
  two columns, and \<^verbatim>\<open>Series.clip(lower, upper)\<close>, which replaces what is below \<open>lower\<close> by
  \<open>lower\<close> and what is above \<open>upper\<close> by \<open>upper\<close>.
\<close>

definition mul_int :: "int list \<Rightarrow> real \<Rightarrow> real list" where
  "mul_int xs c = map (\<lambda>x. real_of_int x * c) xs"

definition mul_float :: "real list \<Rightarrow> real \<Rightarrow> real list" where
  "mul_float xs c = map (\<lambda>x. x * c) xs"

definition series_add :: "real list \<Rightarrow> real list \<Rightarrow> real list" where
  "series_add xs ys = map (\<lambda>(x, y). x + y) (zip xs ys)"

definition clip :: "real \<Rightarrow> real \<Rightarrow> real list \<Rightarrow> real list" where
  "clip lower upper xs =
     map (\<lambda>x. if x < lower then lower else if upper < x then upper else x) xs"

text \<open>The right-hand side of \<^verbatim>\<open>df["AQI"] = ...\<close>, lines 27 to 31.\<close>

definition AQI_formula :: "'a data_scheme \<Rightarrow> real list" where
  "AQI_formula df =
     clip 0 500
       (series_add
         (series_add
           (series_add
             (series_add
               (series_add (mul_int (PM25 df) 0.4) (mul_int (PM10 df) 0.2))
               (mul_int (NO2 df) 0.15))
             (mul_int (SO2 df) 0.1))
           (mul_float (CO df) 10))
         (mul_int (O3 df) 0.05))"

text \<open>The assignment \<^verbatim>\<open>df["AQI"] = xs\<close>.\<close>

definition assign_AQI :: "data \<Rightarrow> real list \<Rightarrow> dataframe" where
  "assign_AQI df xs =
     \<lparr>PM25 = PM25 df, PM10 = PM10 df, NO2 = NO2 df, SO2 = SO2 df, CO = CO df, O3 = O3 df,
      Temperature = Temperature df, Humidity = Humidity df, Wind = Wind df, date = date df,
      AQI = xs\<rparr>"

subsection \<open>\<^verbatim>\<open>load_data\<close>\<close>

text \<open>
  \<^verbatim>\<open>load_data(n)\<close>, lines 11 to 32, started in the global random state \<open>g0\<close>. The entries
  of the dictionary are evaluated in the order they are written. The function has no
  check of \<open>n\<close> of its own, and its seed is the constant 42, not a parameter. The
  decorator \<^verbatim>\<open>st.cache_data\<close> keeps the frame computed for an argument and hands it out
  again; it is not modelled.
\<close>

definition load_data :: "'g np_random \<Rightarrow> int \<Rightarrow> (dataframe, 'g) np" where
  "load_data np n =
     np_bind (np_seed np 42) (\<lambda>_.
     np_bind (np_randint np 10 300 n) (\<lambda>pm25.
     np_bind (np_randint np 20 400 n) (\<lambda>pm10.
     np_bind (np_randint np 5 150 n) (\<lambda>no2.
     np_bind (np_randint np 2 80 n) (\<lambda>so2.
     np_bind (np_uniform np 0.1 5.0 n) (\<lambda>co.
     np_bind (np_randint np 10 250 n) (\<lambda>o3.
     np_bind (np_uniform np 10 40 n) (\<lambda>temperature.
     np_bind (np_uniform np 20 90 n) (\<lambda>humidity.
     np_bind (np_uniform np 0 10 n) (\<lambda>wind.
     np_bind (np_return (date_range (2023, 1, 1) n)) (\<lambda>dates.
     np_bind (np_return (DataFrame
        \<lparr>PM25 = pm25, PM10 = pm10, NO2 = no2, SO2 = so2, CO = co, O3 = o3,
         Temperature = temperature, Humidity = humidity, Wind = wind, date = dates\<rparr>)) (\<lambda>df.
     np_return (Inr (assign_AQI df (AQI_formula df)))))))))))))))"

subsection \<open>The rule-based prediction\<close>

text \<open>
  The category strings of the source carry an emoji each: \<^verbatim>\<open>Good\<close>, \<^verbatim>\<open>Moderate\<close>,
  \<^verbatim>\<open>Poor\<close>, \<^verbatim>\<open>Very Poor\<close> and \<^verbatim>\<open>Severe\<close>.
\<close>

datatype category = Good | Moderate | Poor | VeryPoor | Severe

record verdict =
  prediction :: real
  category :: category
  color :: string

text \<open>
  The block under \<^verbatim>\<open>if st.sidebar.button("Predict AQI")\<close>, lines 102 to 125, as a function
  of the nine sidebar inputs. Nothing in it raises.
\<close>

definition predict_AQI ::
  "real \<Rightarrow> real \<Rightarrow> real \<Rightarrow> real \<Rightarrow> real \<Rightarrow> real \<Rightarrow> real \<Rightarrow> real \<Rightarrow> real \<Rightarrow> error + verdict" where
  "predict_AQI pm25 pm10 no2 so2 co o3 temp humid wind =
     (let prediction = pm25 * 0.4 + pm10 * 0.2 + no2 * 0.15 + so2 * 0.1 + co * 10 + o3 * 0.05;
          prediction = min prediction 500
      in if prediction \<le> 50 then
           Inr \<lparr>prediction = prediction, category = Good, color = ''green''\<rparr>
         else if prediction \<le> 100 then
           Inr \<lparr>prediction = prediction, category = Moderate, color = ''yellow''\<rparr>
         else if prediction \<le> 200 then
           Inr \<lparr>prediction = prediction, category = Poor, color = ''orange''\<rparr>
         else if prediction \<le> 300 then
           Inr \<lparr>prediction = prediction, category = VeryPoor, color = ''red''\<rparr>
         else
           Inr \<lparr>prediction = prediction, category = Severe, color = ''darkred''\<rparr>)"

text \<open>
  Lines 108 to 125 on their own, as a function of the value \<open>raw\<close> that the variable
  \<^verbatim>\<open>prediction\<close> holds after lines 104 to 107. The program computes that value in
  double precision, so it can differ in the last place from the exact weighted sum of the
  inputs that \<open>predict_AQI\<close> uses. From line 108 on nothing is rounded: \<^verbatim>\<open>min\<close> and the
  comparisons are exact on doubles, and 50, 100, 200, 300 and 500 are doubles. So what is
  proved of \<open>categorise raw\<close> for every real \<open>raw\<close> holds of the program for every
  finite value it computed.
\<close>

definition categorise :: "real \<Rightarrow> error + verdict" where
  "categorise raw =
     (let prediction = min raw 500
      in if prediction \<le> 50 then
           Inr \<lparr>prediction = prediction, category = Good, color = ''green''\<rparr>
         else if prediction \<le> 100 then
           Inr \<lparr>prediction = prediction, category = Moderate, color = ''yellow''\<rparr>
         else if prediction \<le> 200 then
           Inr \<lparr>prediction = prediction, category = Poor, color = ''orange''\<rparr>
         else if prediction \<le> 300 then
           Inr \<lparr>prediction = prediction, category = VeryPoor, color = ''red''\<rparr>
         else
           Inr \<lparr>prediction = prediction, category = Severe, color = ''darkred''\<rparr>)"

subsection \<open>A concrete generator\<close>

text \<open>
  A small deterministic generator on a counter, standing in for numpy's where a theorem is
  run on a concrete input. It is not numpy's algorithm; it meets \<open>np_contract\<close>, which
  is all the theorems ask of a generator. The state is the number of values drawn so far,
  started at the seed.
\<close>

definition counter_randint :: "int \<Rightarrow> int \<Rightarrow> nat \<Rightarrow> nat \<Rightarrow> int list \<times> nat" where
  "counter_randint lo hi k g = (map (\<lambda>i. lo + int (i mod nat (hi - lo))) [g..<g + k], g + k)"

definition counter_uniform :: "real \<Rightarrow> real \<Rightarrow> nat \<Rightarrow> nat \<Rightarrow> real list \<times> nat" where
  "counter_uniform lo hi k g =
     (map (\<lambda>i. lo + (hi - lo) * (real (i mod 4) / 4)) [g..<g + k], g + k)"

definition counter_random :: "nat np_random" where
  "counter_random = \<lparr>seed = nat, randint = counter_randint, uniform = counter_uniform\<rparr>"

text \<open>
  A second generator: the same integers, the same floats on the range of \<^verbatim>\<open>CO\<close>, and
  the lower bound of the range everywhere else.
\<close>

definition still_uniform :: "real \<Rightarrow> real \<Rightarrow> nat \<Rightarrow> nat \<Rightarrow> real list \<times> nat" where
  "still_uniform lo hi k g =
     (if lo = 0.1 then counter_uniform lo hi k g else (replicate k lo, g + k))"

definition still_random :: "nat np_random" where
  "still_random = \<lparr>seed = nat, randint = counter_randint, uniform = still_uniform\<rparr>"

subsection \<open>The draws of \<^verbatim>\<open>load_data\<close>, without the errors\<close>

text \<open>
  The ten columns that \<^verbatim>\<open>load_data\<close> builds for a size \<open>k \<ge> 0\<close>, and the random state
  after the last draw. \<open>load_data_draws\<close> below proves that \<open>load_data\<close> computes these.
\<close>

definition draw_columns :: "'g np_random \<Rightarrow> nat \<Rightarrow> data \<times> 'g" where
  "draw_columns np k =
     (let g = seed np 42;
          (pm25, g) = randint np 10 300 k g;
          (pm10, g) = randint np 20 400 k g;
          (no2, g) = randint np 5 150 k g;
          (so2, g) = randint np 2 80 k g;
          (co, g) = uniform np 0.1 5.0 k g;
          (o3, g) = randint np 10 250 k g;
          (temperature, g) = uniform np 10 40 k g;
          (humidity, g) = uniform np 20 90 k g;
          (wind, g) = uniform np 0 10 k g
      in (\<lparr>PM25 = pm25, PM10 = pm10, NO2 = no2, SO2 = so2, CO = co, O3 = o3,
           Temperature = temperature, Humidity = humidity, Wind = wind,
           date = days_from (2023, 1, 1) k\<rparr>, g))"

text \<open>
  The frames that \<open>load_data\<close> returns for \<open>n = 2\<close> with the two generators
  (\<open>load_data_sample\<close> and \<open>load_data_still\<close> below), and for \<open>n = 0\<close>.
\<close>

definition sample_frame :: dataframe where
  "sample_frame =
     \<lparr>PM25 = [52, 53], PM10 = [64, 65], NO2 = [51, 52], SO2 = [50, 51],
      CO = [51 / 20, 151 / 40], O3 = [62, 63], Temperature = [25, 65 / 2],
      Humidity = [20, 75 / 2], Wind = [5, 15 / 2], date = [(2023, 1, 1), (2023, 1, 2)],
      AQI = [1497 / 20, 88]\<rparr>"

definition still_frame :: dataframe where
  "still_frame =
     \<lparr>PM25 = [52, 53], PM10 = [64, 65], NO2 = [51, 52], SO2 = [50, 51],
      CO = [51 / 20, 151 / 40], O3 = [62, 63], Temperature = [10, 10],
      Humidity = [20, 20], Wind = [0, 0], date = [(2023, 1, 1), (2023, 1, 2)],
      AQI = [1497 / 20, 88]\<rparr>"

definition empty_frame :: dataframe where
  "empty_frame =
     \<lparr>PM25 = [], PM10 = [], NO2 = [], SO2 = [], CO = [], O3 = [], Temperature = [],
      Humidity = [], Wind = [], date = [], AQI = []\<rparr>"

section \<open>Lemmas\<close>

subsection \<open>\<^verbatim>\<open>load_data\<close> step by step\<close>

lemma np_bind_seed:
  "0 \<le> s \<Longrightarrow> s < 2 ^ 32 \<Longrightarrow> np_bind (np_seed np s) f g = f () (seed np s)"
  by (simp add: np_bind_def np_seed_def)

lemma np_bind_randint:
  "0 \<le> n \<Longrightarrow> lo < hi \<Longrightarrow>
   np_bind (np_randint np lo hi n) f g =
     f (fst (randint np lo hi (nat n) g)) (snd (randint np lo hi (nat n) g))"
  by (simp add: np_bind_def np_randint_def split_beta)

lemma np_bind_uniform:
  "0 \<le> n \<Longrightarrow>
   np_bind (np_uniform np lo hi n) f g =
     f (fst (uniform np lo hi (nat n) g)) (snd (uniform np lo hi (nat n) g))"
  by (simp add: np_bind_def np_uniform_def split_beta)

lemma np_bind_return:
  "np_bind (np_return r) f g = (case r of Inl e \<Rightarrow> (Inl e, g) | Inr a \<Rightarrow> f a g)"
  by (simp add: np_bind_def np_return_def split: sum.splits)

lemma load_data_negative: "n < 0 \<Longrightarrow> load_data np n g0 = (Inl ValueError, seed np 42)"
  by (simp add: load_data_def np_bind_def np_seed_def np_randint_def)

lemma load_data_draws:
  assumes "0 \<le> n"
  shows "load_data np n g0 =
     (case DataFrame (fst (draw_columns np (nat n))) of
        Inl e \<Rightarrow> (Inl e, snd (draw_columns np (nat n)))
      | Inr df \<Rightarrow> (Inr (assign_AQI df (AQI_formula df)), snd (draw_columns np (nat n))))"
proof -
  have dr: "date_range (2023, 1, 1) n = Inr (days_from (2023, 1, 1) (nat n))"
    using assms by (simp add: date_range_def)
  have sd: "\<And>f g. np_bind (np_seed np 42) f g = f () (seed np 42)"
    by (simp add: np_bind_seed)
  have r1: "\<And>f g. np_bind (np_randint np 10 300 n) f g =
      f (fst (randint np 10 300 (nat n) g)) (snd (randint np 10 300 (nat n) g))"
    and r2: "\<And>f g. np_bind (np_randint np 20 400 n) f g =
      f (fst (randint np 20 400 (nat n) g)) (snd (randint np 20 400 (nat n) g))"
    and r3: "\<And>f g. np_bind (np_randint np 5 150 n) f g =
      f (fst (randint np 5 150 (nat n) g)) (snd (randint np 5 150 (nat n) g))"
    and r4: "\<And>f g. np_bind (np_randint np 2 80 n) f g =
      f (fst (randint np 2 80 (nat n) g)) (snd (randint np 2 80 (nat n) g))"
    and r5: "\<And>f g. np_bind (np_randint np 10 250 n) f g =
      f (fst (randint np 10 250 (nat n) g)) (snd (randint np 10 250 (nat n) g))"
    using assms by (simp_all add: np_bind_randint)
  show ?thesis
    unfolding load_data_def draw_columns_def Let_def split_beta fst_conv snd_conv
      sd r1 r2 r3 r4 r5 np_bind_uniform[OF assms] np_bind_return dr sum.case np_return_def
    by (rule refl)
qed

subsection \<open>The concrete generators meet the contract\<close>

lemma counter_randint_range:
  assumes "lo < hi" and "x \<in> set (fst (counter_randint lo hi k g))"
  shows "lo \<le> x \<and> x < hi"
proof -
  from assms(2) obtain i where x: "x = lo + int (i mod nat (hi - lo))"
    by (auto simp: counter_randint_def)
  have "0 < nat (hi - lo)" using assms(1) by simp
  then have "i mod nat (hi - lo) < nat (hi - lo)" by (rule mod_less_divisor)
  then have "int (i mod nat (hi - lo)) < hi - lo" by linarith
  with x show ?thesis by simp
qed

lemma counter_uniform_range:
  assumes "lo < hi" and "x \<in> set (fst (counter_uniform lo hi k g))"
  shows "lo \<le> x \<and> x < hi"
proof -
  from assms(2) obtain i where x: "x = lo + (hi - lo) * (real (i mod 4) / 4)"
    by (auto simp: counter_uniform_def)
  have "i mod 4 < 4" by simp
  then have q: "0 \<le> real (i mod 4) / 4" "real (i mod 4) / 4 < 1" by simp_all
  have d: "0 < hi - lo" using assms(1) by simp
  have "0 \<le> (hi - lo) * (real (i mod 4) / 4)"
    using d q(1) by simp
  moreover have "(hi - lo) * (real (i mod 4) / 4) < (hi - lo) * 1"
    using d q(2) by (simp only: mult_less_cancel_left_pos)
  ultimately show ?thesis using x by simp
qed

lemma still_uniform_range:
  assumes "lo < hi" and "x \<in> set (fst (still_uniform lo hi k g))"
  shows "lo \<le> x \<and> x < hi"
proof (cases "lo = 0.1")
  case True
  then have "fst (still_uniform lo hi k g) = fst (counter_uniform lo hi k g)"
    by (simp add: still_uniform_def)
  with assms show ?thesis using counter_uniform_range[of lo hi x k g] by simp
next
  case False
  then have "fst (still_uniform lo hi k g) = replicate k lo"
    by (simp add: still_uniform_def)
  with assms show ?thesis by auto
qed

lemma length_counter_randint: "length (fst (counter_randint lo hi k g)) = k"
  by (simp add: counter_randint_def)

lemma length_counter_uniform: "length (fst (counter_uniform lo hi k g)) = k"
  by (simp add: counter_uniform_def)

lemma length_still_uniform: "length (fst (still_uniform lo hi k g)) = k"
  by (simp add: still_uniform_def counter_uniform_def)

lemma counter_random_contract: "np_contract counter_random"
  unfolding np_contract_def counter_random_def np_random.simps
  using counter_randint_range counter_uniform_range
    length_counter_randint length_counter_uniform
  by blast

lemma still_random_contract: "np_contract still_random"
  unfolding np_contract_def still_random_def np_random.simps
  using counter_randint_range still_uniform_range
    length_counter_randint length_still_uniform
  by blast

subsection \<open>What the contract gives\<close>

lemma contract_randint:
  assumes "np_contract np" and "lo < hi"
  shows "length (fst (randint np lo hi k g)) = k"
    and "x \<in> set (fst (randint np lo hi k g)) \<Longrightarrow> lo \<le> x \<and> x < hi"
  using assms unfolding np_contract_def by blast+

lemma contract_uniform:
  assumes "np_contract np" and "lo < hi"
  shows "length (fst (uniform np lo hi k g)) = k"
    and "x \<in> set (fst (uniform np lo hi k g)) \<Longrightarrow> lo \<le> x \<and> x < hi"
  using assms unfolding np_contract_def by blast+

subsection \<open>Consecutive days\<close>

lemma length_days_from: "length (days_from d k) = k"
  by (induction k arbitrary: d) simp_all

lemma days_from_nth_Suc: "Suc i < k \<Longrightarrow> days_from d k ! Suc i = next_day (days_from d k ! i)"
proof (induction k arbitrary: d i)
  case 0
  then show ?case by simp
next
  case (Suc k)
  show ?case
  proof (cases i)
    case 0
    with Suc.prems show ?thesis by (cases k) simp_all
  next
    case (Suc j)
    with Suc.prems Suc.IH[of j "next_day d"] show ?thesis by simp
  qed
qed

lemma date_less_next_day: "date_less d (next_day d)"
  by (cases d) (auto simp: days_in_month_def)

lemma date_less_trans: "date_less a b \<Longrightarrow> date_less b c \<Longrightarrow> date_less a c"
  by (cases a; cases b; cases c) (auto split: if_splits)

lemma date_less_irrefl: "\<not> date_less a a"
  by (cases a) auto

lemma days_from_later: "x \<in> set (days_from d k) \<Longrightarrow> x = d \<or> date_less d x"
proof (induction k arbitrary: d)
  case 0
  then show ?case by simp
next
  case (Suc k)
  show ?case
  proof (cases "x = d")
    case True
    then show ?thesis by simp
  next
    case False
    with Suc.prems have "x \<in> set (days_from (next_day d) k)" by simp
    from Suc.IH[OF this] have "date_less d x"
      using date_less_next_day[of d] date_less_trans[of d "next_day d" x] by blast
    then show ?thesis by simp
  qed
qed

lemma sorted_days_from: "sorted_wrt date_less (days_from d k)"
proof (induction k arbitrary: d)
  case 0
  then show ?case by simp
next
  case (Suc k)
  have "date_less d x" if "x \<in> set (days_from (next_day d) k)" for x
    using days_from_later[OF that] date_less_next_day[of d] date_less_trans[of d "next_day d" x]
    by auto
  with Suc.IH show ?case by simp
qed

lemma distinct_days_from: "distinct (days_from d k)"
proof (induction k arbitrary: d)
  case 0
  then show ?case by simp
next
  case (Suc k)
  have "d \<notin> set (days_from (next_day d) k)"
  proof
    assume "d \<in> set (days_from (next_day d) k)"
    from days_from_later[OF this] date_less_next_day[of d] date_less_trans[of d "next_day d" d]
    show False using date_less_irrefl[of d] by auto
  qed
  with Suc.IH show ?case by simp
qed

subsection \<open>The drawn columns\<close>

lemma draw_columns_lengths:
  assumes "np_contract np"
  shows "length (PM25 (fst (draw_columns np k))) = k"
    and "length (PM10 (fst (draw_columns np k))) = k"
    and "length (NO2 (fst (draw_columns np k))) = k"
    and "length (SO2 (fst (draw_columns np k))) = k"
    and "length (CO (fst (draw_columns np k))) = k"
    and "length (O3 (fst (draw_columns np k))) = k"
    and "length (Temperature (fst (draw_columns np k))) = k"
    and "length (Humidity (fst (draw_columns np k))) = k"
    and "length (Wind (fst (draw_columns np k))) = k"
    and "length (date (fst (draw_columns np k))) = k"
  unfolding draw_columns_def Let_def split_beta fst_conv snd_conv data.simps
  by (simp_all add: contract_randint(1)[OF assms] contract_uniform(1)[OF assms] length_days_from)

lemma draw_columns_ranges:
  assumes "np_contract np"
  shows "x \<in> set (PM25 (fst (draw_columns np k))) \<Longrightarrow> 10 \<le> x \<and> x < 300"
    and "x \<in> set (PM10 (fst (draw_columns np k))) \<Longrightarrow> 20 \<le> x \<and> x < 400"
    and "x \<in> set (NO2 (fst (draw_columns np k))) \<Longrightarrow> 5 \<le> x \<and> x < 150"
    and "x \<in> set (SO2 (fst (draw_columns np k))) \<Longrightarrow> 2 \<le> x \<and> x < 80"
    and "r \<in> set (CO (fst (draw_columns np k))) \<Longrightarrow> 0.1 \<le> r \<and> r < 5.0"
    and "x \<in> set (O3 (fst (draw_columns np k))) \<Longrightarrow> 10 \<le> x \<and> x < 250"
    and "r \<in> set (Temperature (fst (draw_columns np k))) \<Longrightarrow> 10 \<le> r \<and> r < 40"
    and "r \<in> set (Humidity (fst (draw_columns np k))) \<Longrightarrow> 20 \<le> r \<and> r < 90"
    and "r \<in> set (Wind (fst (draw_columns np k))) \<Longrightarrow> 0 \<le> r \<and> r < 10"
  unfolding draw_columns_def Let_def split_beta fst_conv snd_conv data.simps
  using contract_randint(2)[OF assms, of 10 300 x] contract_randint(2)[OF assms, of 20 400 x]
    contract_randint(2)[OF assms, of 5 150 x] contract_randint(2)[OF assms, of 2 80 x]
    contract_uniform(2)[OF assms, of "0.1" "5.0" r] contract_randint(2)[OF assms, of 10 250 x]
    contract_uniform(2)[OF assms, of 10 40 r] contract_uniform(2)[OF assms, of 20 90 r]
    contract_uniform(2)[OF assms, of 0 10 r]
  by simp_all

lemma draw_columns_date: "date (fst (draw_columns np k)) = days_from (2023, 1, 1) k"
  unfolding draw_columns_def Let_def split_beta fst_conv snd_conv data.simps by (rule refl)

subsection \<open>The frame that \<^verbatim>\<open>load_data\<close> returns\<close>

lemma assign_AQI_sel:
  "PM25 (assign_AQI d xs) = PM25 d" "PM10 (assign_AQI d xs) = PM10 d"
  "NO2 (assign_AQI d xs) = NO2 d" "SO2 (assign_AQI d xs) = SO2 d"
  "CO (assign_AQI d xs) = CO d" "O3 (assign_AQI d xs) = O3 d"
  "Temperature (assign_AQI d xs) = Temperature d" "Humidity (assign_AQI d xs) = Humidity d"
  "Wind (assign_AQI d xs) = Wind d" "date (assign_AQI d xs) = date d"
  "AQI (assign_AQI d xs) = xs"
  by (simp_all add: assign_AQI_def)

lemma DataFrame_Inr:
  assumes "DataFrame d = Inr d'"
  shows "d' = d"
    and "length (PM10 d) = length (PM25 d)" and "length (NO2 d) = length (PM25 d)"
    and "length (SO2 d) = length (PM25 d)" and "length (CO d) = length (PM25 d)"
    and "length (O3 d) = length (PM25 d)" and "length (Temperature d) = length (PM25 d)"
    and "length (Humidity d) = length (PM25 d)" and "length (Wind d) = length (PM25 d)"
    and "length (date d) = length (PM25 d)"
  using assms by (simp_all add: DataFrame_def Let_def split: if_splits)

lemma DataFrame_draw_columns:
  assumes "np_contract np"
  shows "DataFrame (fst (draw_columns np k)) = Inr (fst (draw_columns np k))"
  by (simp add: DataFrame_def Let_def draw_columns_lengths[OF assms])

lemma load_data_contract:
  assumes "np_contract np" and "0 \<le> n"
  shows "load_data np n g0 =
    (Inr (assign_AQI (fst (draw_columns np (nat n))) (AQI_formula (fst (draw_columns np (nat n))))),
     snd (draw_columns np (nat n)))"
  by (simp add: load_data_draws[OF assms(2)] DataFrame_draw_columns[OF assms(1)])

lemma load_data_Inr:
  assumes "load_data np n g0 = (Inr df, g')"
  shows "0 \<le> n"
    and "DataFrame (fst (draw_columns np (nat n))) = Inr (fst (draw_columns np (nat n)))"
    and "df = assign_AQI (fst (draw_columns np (nat n))) (AQI_formula (fst (draw_columns np (nat n))))"
proof -
  show n: "0 \<le> n"
  proof (rule ccontr)
    assume "\<not> 0 \<le> n"
    then have "load_data np n g0 = (Inl ValueError, seed np 42)"
      by (simp add: load_data_negative)
    with assms show False by simp
  qed
  let ?d = "fst (draw_columns np (nat n))"
  from assms load_data_draws[OF n, of np g0]
  obtain d' where d': "DataFrame ?d = Inr d'" and df: "df = assign_AQI d' (AQI_formula d')"
    by (cases "DataFrame ?d") auto
  from DataFrame_Inr(1)[OF d'] have "d' = ?d" .
  with d' df show "DataFrame ?d = Inr ?d" and "df = assign_AQI ?d (AQI_formula ?d)"
    by simp_all
qed

lemma length_AQI_formula:
  assumes "length (PM10 d) = length (PM25 d)" "length (NO2 d) = length (PM25 d)"
    "length (SO2 d) = length (PM25 d)" "length (CO d) = length (PM25 d)"
    "length (O3 d) = length (PM25 d)"
  shows "length (AQI_formula d) = length (PM25 d)"
  using assms by (simp add: AQI_formula_def clip_def series_add_def mul_int_def mul_float_def)

lemma AQI_formula_nth:
  assumes "length (PM10 d) = length (PM25 d)" "length (NO2 d) = length (PM25 d)"
    "length (SO2 d) = length (PM25 d)" "length (CO d) = length (PM25 d)"
    "length (O3 d) = length (PM25 d)" and "i < length (PM25 d)"
  shows "AQI_formula d ! i =
    (let raw = real_of_int (PM25 d ! i) * 0.4 + real_of_int (PM10 d ! i) * 0.2 +
               real_of_int (NO2 d ! i) * 0.15 + real_of_int (SO2 d ! i) * 0.1 +
               CO d ! i * 10 + real_of_int (O3 d ! i) * 0.05
     in if raw < 0 then 0 else if 500 < raw then 500 else raw)"
  using assms
  by (simp add: AQI_formula_def clip_def series_add_def mul_int_def mul_float_def Let_def)

lemma AQI_formula_cong:
  assumes "PM25 d = PM25 d'" "PM10 d = PM10 d'" "NO2 d = NO2 d'" "SO2 d = SO2 d'"
    "CO d = CO d'" "O3 d = O3 d'"
  shows "AQI_formula d = AQI_formula d'"
  using assms by (simp add: AQI_formula_def)

subsection \<open>The last of 200 days from 2023-01-01\<close>

lemma last_days_from: "last (days_from d (Suc k)) = (next_day ^^ k) d"
  by (induction k arbitrary: d) (simp_all add: funpow_swap1)

lemma next_day_within:
  "d + j \<le> days_in_month y m \<Longrightarrow> (next_day ^^ j) (y, m, d) = (y, m, d + j)"
  by (induction j) simp_all

lemma month_jump:
  assumes "m < 12" and "j = days_in_month y m"
  shows "(next_day ^^ j) (y, m, 1) = (y, m + 1, 1)"
proof -
  have "0 < j" using assms(2) by (simp add: days_in_month_def)
  then obtain i where j: "j = Suc i" by (cases j) simp_all
  have "(next_day ^^ i) (y, m, 1) = (y, m, 1 + i)"
    using next_day_within[of 1 i y m] j assms(2) by simp
  then have "(next_day ^^ j) (y, m, 1) = next_day (y, m, j)"
    using j by simp
  also have "\<dots> = (y, m + 1, 1)"
    using assms by simp
  finally show ?thesis .
qed

lemma last_200: "last (days_from (2023, 1, 1) 200) = (2023, 7, 19)"
proof -
  have split: "(199::nat) = 18 + (30 + (31 + (30 + (31 + (28 + 31)))))" by simp
  have jan: "(next_day ^^ 31) (2023, 1, 1) = (2023, 2, 1)"
    using month_jump[of 1 31 2023] by (simp add: days_in_month_def)
  have feb: "(next_day ^^ 28) (2023, 2, 1) = (2023, 3, 1)"
    using month_jump[of 2 28 2023] by (simp add: days_in_month_def leap_year_def)
  have mar: "(next_day ^^ 31) (2023, 3, 1) = (2023, 4, 1)"
    using month_jump[of 3 31 2023] by (simp add: days_in_month_def)
  have apr: "(next_day ^^ 30) (2023, 4, 1) = (2023, 5, 1)"
    using month_jump[of 4 30 2023] by (simp add: days_in_month_def)
  have may: "(next_day ^^ 31) (2023, 5, 1) = (2023, 6, 1)"
    using month_jump[of 5 31 2023] by (simp add: days_in_month_def)
  have jun: "(next_day ^^ 30) (2023, 6, 1) = (2023, 7, 1)"
    using month_jump[of 6 30 2023] by (simp add: days_in_month_def)
  have jul: "(next_day ^^ 18) (2023, 7, 1) = (2023, 7, 19)"
    using next_day_within[of 1 18 2023 7] by (simp add: days_in_month_def)
  have "(next_day ^^ 199) (2023, 1, 1) = (2023, 7, 19)"
    by (simp only: split funpow_add o_apply jan feb mar apr may jun jul)
  moreover have "last (days_from (2023, 1, 1) 200) = (next_day ^^ 199) (2023, 1, 1)"
    using last_days_from[of "(2023, 1, 1)" 199] by simp
  ultimately show ?thesis by simp
qed

subsection \<open>\<^verbatim>\<open>load_data\<close> on the concrete generators\<close>

lemma draw_columns_counter_2:
  "draw_columns counter_random 2 =
    (\<lparr>PM25 = [52, 53], PM10 = [64, 65], NO2 = [51, 52], SO2 = [50, 51],
      CO = [51 / 20, 151 / 40], O3 = [62, 63], Temperature = [25, 65 / 2],
      Humidity = [20, 75 / 2], Wind = [5, 15 / 2], date = [(2023, 1, 1), (2023, 1, 2)]\<rparr>, 60)"
  by (simp add: draw_columns_def counter_random_def counter_randint_def counter_uniform_def
      Let_def numeral_2_eq_2 days_in_month_def)

lemma load_data_sample: "load_data counter_random 2 7 = (Inr sample_frame, 60)"
proof -
  have "load_data counter_random 2 7 =
      (Inr (assign_AQI (fst (draw_columns counter_random 2))
             (AQI_formula (fst (draw_columns counter_random 2)))),
       snd (draw_columns counter_random 2))"
    using load_data_contract[OF counter_random_contract, of 2 7] by simp
  then show ?thesis
    by (simp add: draw_columns_counter_2 assign_AQI_def AQI_formula_def clip_def
        series_add_def mul_int_def mul_float_def sample_frame_def)
qed

lemma draw_columns_still_2:
  "draw_columns still_random 2 =
    (\<lparr>PM25 = [52, 53], PM10 = [64, 65], NO2 = [51, 52], SO2 = [50, 51],
      CO = [51 / 20, 151 / 40], O3 = [62, 63], Temperature = [10, 10],
      Humidity = [20, 20], Wind = [0, 0], date = [(2023, 1, 1), (2023, 1, 2)]\<rparr>, 60)"
  by (simp add: draw_columns_def still_random_def still_uniform_def counter_randint_def
      counter_uniform_def Let_def numeral_2_eq_2 days_in_month_def)

lemma load_data_still: "load_data still_random 2 7 = (Inr still_frame, 60)"
proof -
  have "load_data still_random 2 7 =
      (Inr (assign_AQI (fst (draw_columns still_random 2))
             (AQI_formula (fst (draw_columns still_random 2)))),
       snd (draw_columns still_random 2))"
    using load_data_contract[OF still_random_contract, of 2 7] by simp
  then show ?thesis
    by (simp add: draw_columns_still_2 assign_AQI_def AQI_formula_def clip_def
        series_add_def mul_int_def mul_float_def still_frame_def)
qed

lemma draw_columns_counter_0:
  "draw_columns counter_random 0 =
    (\<lparr>PM25 = [], PM10 = [], NO2 = [], SO2 = [], CO = [], O3 = [], Temperature = [],
      Humidity = [], Wind = [], date = []\<rparr>, 42)"
  by (simp add: draw_columns_def counter_random_def counter_randint_def counter_uniform_def
      Let_def)

lemma load_data_counter_0: "load_data counter_random 0 7 = (Inr empty_frame, 42)"
proof -
  have "load_data counter_random 0 7 =
      (Inr (assign_AQI (fst (draw_columns counter_random 0))
             (AQI_formula (fst (draw_columns counter_random 0)))),
       snd (draw_columns counter_random 0))"
    using load_data_contract[OF counter_random_contract, of 0 7] by simp
  then show ?thesis
    by (simp add: draw_columns_counter_0 assign_AQI_def AQI_formula_def clip_def
        series_add_def mul_int_def mul_float_def empty_frame_def)
qed

lemma hd_days_from: "0 < k \<Longrightarrow> hd (days_from d k) = d"
  by (cases k) simp_all

subsection \<open>The prediction, unfolded\<close>

lemma verdict_chain:
  "(if p \<le> 50 then Inr \<lparr>prediction = p, category = Good, color = ''green''\<rparr>
    else if p \<le> 100 then Inr \<lparr>prediction = p, category = Moderate, color = ''yellow''\<rparr>
    else if p \<le> 200 then Inr \<lparr>prediction = p, category = Poor, color = ''orange''\<rparr>
    else if p \<le> 300 then Inr \<lparr>prediction = p, category = VeryPoor, color = ''red''\<rparr>
    else Inr \<lparr>prediction = p, category = Severe, color = ''darkred''\<rparr>) =
   (Inr \<lparr>prediction = p,
         category = (if p \<le> 50 then Good else if p \<le> 100 then Moderate
                     else if p \<le> 200 then Poor else if p \<le> 300 then VeryPoor else Severe),
         color = (if p \<le> 50 then ''green'' else if p \<le> 100 then ''yellow''
                  else if p \<le> 200 then ''orange'' else if p \<le> 300 then ''red''
                  else ''darkred'')\<rparr> :: error + verdict)"
  by simp

lemma predict_AQI_unfold:
  "predict_AQI pm25 pm10 no2 so2 co o3 temp humid wind =
     (let p = min (pm25 * 0.4 + pm10 * 0.2 + no2 * 0.15 + so2 * 0.1 + co * 10 + o3 * 0.05) 500 in
      Inr \<lparr>prediction = p,
           category = (if p \<le> 50 then Good else if p \<le> 100 then Moderate
                       else if p \<le> 200 then Poor else if p \<le> 300 then VeryPoor else Severe),
           color = (if p \<le> 50 then ''green'' else if p \<le> 100 then ''yellow''
                    else if p \<le> 200 then ''orange'' else if p \<le> 300 then ''red''
                    else ''darkred'')\<rparr>)"
  unfolding predict_AQI_def Let_def by (rule verdict_chain)

lemma weights_commute:
  "0.4 * pm25 + 0.2 * pm10 + 0.15 * no2 + 0.1 * so2 + 10 * co + 0.05 * o3
     = pm25 * 0.4 + pm10 * 0.2 + no2 * 0.15 + so2 * 0.1 + co * 10 + o3 * (0.05 :: real)"
  by (simp add: mult.commute)

lemma predict_AQI_returns:
  "\<exists>v. predict_AQI pm25 pm10 no2 so2 co o3 temp humid wind = Inr v \<and>
       prediction v =
         min (0.4 * pm25 + 0.2 * pm10 + 0.15 * no2 + 0.1 * so2 + 10 * co + 0.05 * o3) 500 \<and>
       category v =
         (if prediction v \<le> 50 then Good else if prediction v \<le> 100 then Moderate
          else if prediction v \<le> 200 then Poor else if prediction v \<le> 300 then VeryPoor
          else Severe)"
proof -
  define p where
    "p = min (pm25 * 0.4 + pm10 * 0.2 + no2 * 0.15 + so2 * 0.1 + co * 10 + o3 * 0.05) 500"
  show ?thesis
    unfolding predict_AQI_unfold weights_commute p_def[symmetric] Let_def
    by (intro exI conjI) (rule refl, simp_all)
qed

text \<open>
  The model's \<open>predict_AQI\<close> is \<open>categorise\<close> applied to its exact weighted sum: the
  two definitions agree from line 108 on.
\<close>

lemma predict_AQI_categorise:
  "predict_AQI pm25 pm10 no2 so2 co o3 temp humid wind =
     categorise (pm25 * 0.4 + pm10 * 0.2 + no2 * 0.15 + so2 * 0.1 + co * 10 + o3 * 0.05)"
  unfolding predict_AQI_def categorise_def Let_def by (rule refl)

lemma categorise_unfold:
  "categorise raw =
     (let p = min raw 500 in
      Inr \<lparr>prediction = p,
           category = (if p \<le> 50 then Good else if p \<le> 100 then Moderate
                       else if p \<le> 200 then Poor else if p \<le> 300 then VeryPoor else Severe),
           color = (if p \<le> 50 then ''green'' else if p \<le> 100 then ''yellow''
                    else if p \<le> 200 then ''orange'' else if p \<le> 300 then ''red''
                    else ''darkred'')\<rparr>)"
  unfolding categorise_def Let_def by (rule verdict_chain)

lemma categorise_returns:
  "\<exists>v. categorise raw = Inr v \<and> prediction v = min raw 500 \<and>
       category v =
         (if prediction v \<le> 50 then Good else if prediction v \<le> 100 then Moderate
          else if prediction v \<le> 200 then Poor else if prediction v \<le> 300 then VeryPoor
          else Severe)"
proof -
  define p where "p = min raw 500"
  show ?thesis
    unfolding categorise_unfold p_def[symmetric] Let_def
    by (intro exI conjI) (rule refl, simp_all)
qed

subsection \<open>What a returned frame satisfies\<close>

lemma load_data_frame:
  assumes "load_data np n g0 = (Inr df, g')"
  shows "0 \<le> n"
    and "AQI df = AQI_formula df"
    and "length (PM10 df) = length (PM25 df)" and "length (NO2 df) = length (PM25 df)"
    and "length (SO2 df) = length (PM25 df)" and "length (CO df) = length (PM25 df)"
    and "length (O3 df) = length (PM25 df)" and "length (Temperature df) = length (PM25 df)"
    and "length (Humidity df) = length (PM25 df)" and "length (Wind df) = length (PM25 df)"
    and "length (date df) = length (PM25 df)" and "length (AQI df) = length (PM25 df)"
    and "date df = days_from (2023, 1, 1) (nat n)"
proof -
  let ?d = "fst (draw_columns np (nat n))"
  note L = load_data_Inr[OF assms]
  note D = DataFrame_Inr[OF L(2)]
  show "0 \<le> n" by (rule L(1))
  have cong: "AQI_formula df = AQI_formula ?d"
    by (rule AQI_formula_cong) (simp_all add: L(3) assign_AQI_sel)
  show "AQI df = AQI_formula df"
    unfolding cong by (simp add: L(3) assign_AQI_sel)
  show "length (PM10 df) = length (PM25 df)" "length (NO2 df) = length (PM25 df)"
    "length (SO2 df) = length (PM25 df)" "length (CO df) = length (PM25 df)"
    "length (O3 df) = length (PM25 df)" "length (Temperature df) = length (PM25 df)"
    "length (Humidity df) = length (PM25 df)" "length (Wind df) = length (PM25 df)"
    "length (date df) = length (PM25 df)"
    using D by (simp_all add: L(3) assign_AQI_sel)
  show "length (AQI df) = length (PM25 df)"
    using length_AQI_formula[OF D(2,3,4,5,6)] by (simp add: L(3) assign_AQI_sel)
  show "date df = days_from (2023, 1, 1) (nat n)"
    by (simp add: L(3) assign_AQI_sel draw_columns_date)
qed

lemma load_data_AQI_nth:
  assumes "load_data np n g0 = (Inr df, g')" and "i < length (AQI df)"
  shows "AQI df ! i =
    (let raw = real_of_int (PM25 df ! i) * 0.4 + real_of_int (PM10 df ! i) * 0.2 +
               real_of_int (NO2 df ! i) * 0.15 + real_of_int (SO2 df ! i) * 0.1 +
               CO df ! i * 10 + real_of_int (O3 df ! i) * 0.05
     in if raw < 0 then 0 else if 500 < raw then 500 else raw)"
proof -
  note F = load_data_frame[OF assms(1)]
  have i: "i < length (PM25 df)" using assms(2) F(12) by simp
  show ?thesis
    unfolding F(2) by (rule AQI_formula_nth[OF F(3,4,5,6,7) i])
qed

lemma load_data_ranges:
  assumes "np_contract np" and "load_data np n g0 = (Inr df, g')" and "i < length (AQI df)"
  shows "10 \<le> PM25 df ! i \<and> PM25 df ! i < 300"
    and "20 \<le> PM10 df ! i \<and> PM10 df ! i < 400"
    and "5 \<le> NO2 df ! i \<and> NO2 df ! i < 150"
    and "2 \<le> SO2 df ! i \<and> SO2 df ! i < 80"
    and "0.1 \<le> CO df ! i \<and> CO df ! i < 5.0"
    and "10 \<le> O3 df ! i \<and> O3 df ! i < 250"
    and "10 \<le> Temperature df ! i \<and> Temperature df ! i < 40"
    and "20 \<le> Humidity df ! i \<and> Humidity df ! i < 90"
    and "0 \<le> Wind df ! i \<and> Wind df ! i < 10"
proof -
  let ?d = "fst (draw_columns np (nat n))"
  note L = load_data_Inr[OF assms(2)]
  note F = load_data_frame[OF assms(2)]
  note R = draw_columns_ranges[OF assms(1), of _ "nat n"]
  have i: "i < length (PM25 df)" using assms(3) F(12) by simp
  have sel: "PM25 df = PM25 ?d" "PM10 df = PM10 ?d" "NO2 df = NO2 ?d" "SO2 df = SO2 ?d"
    "CO df = CO ?d" "O3 df = O3 ?d" "Temperature df = Temperature ?d"
    "Humidity df = Humidity ?d" "Wind df = Wind ?d"
    by (simp_all add: L(3) assign_AQI_sel)
  have "PM25 df ! i \<in> set (PM25 ?d)" using i sel(1) by (metis nth_mem)
  then show "10 \<le> PM25 df ! i \<and> PM25 df ! i < 300" by (rule R(1))
  have "PM10 df ! i \<in> set (PM10 ?d)" using i F(3) sel(2) by (metis nth_mem)
  then show "20 \<le> PM10 df ! i \<and> PM10 df ! i < 400" by (rule R(2))
  have "NO2 df ! i \<in> set (NO2 ?d)" using i F(4) sel(3) by (metis nth_mem)
  then show "5 \<le> NO2 df ! i \<and> NO2 df ! i < 150" by (rule R(3))
  have "SO2 df ! i \<in> set (SO2 ?d)" using i F(5) sel(4) by (metis nth_mem)
  then show "2 \<le> SO2 df ! i \<and> SO2 df ! i < 80" by (rule R(4))
  have "CO df ! i \<in> set (CO ?d)" using i F(6) sel(5) by (metis nth_mem)
  then show "0.1 \<le> CO df ! i \<and> CO df ! i < 5.0" by (rule R(5))
  have "O3 df ! i \<in> set (O3 ?d)" using i F(7) sel(6) by (metis nth_mem)
  then show "10 \<le> O3 df ! i \<and> O3 df ! i < 250" by (rule R(6))
  have "Temperature df ! i \<in> set (Temperature ?d)" using i F(8) sel(7) by (metis nth_mem)
  then show "10 \<le> Temperature df ! i \<and> Temperature df ! i < 40" by (rule R(7))
  have "Humidity df ! i \<in> set (Humidity ?d)" using i F(9) sel(8) by (metis nth_mem)
  then show "20 \<le> Humidity df ! i \<and> Humidity df ! i < 90" by (rule R(8))
  have "Wind df ! i \<in> set (Wind ?d)" using i F(10) sel(9) by (metis nth_mem)
  then show "0 \<le> Wind df ! i \<and> Wind df ! i < 10" by (rule R(9))
qed

lemma clip_as_clamp:
  "(if raw < 0 then 0 else if 500 < raw then 500 else raw) = max 0 (min 500 (raw :: real))"
  by simp

lemma raw_bounds:
  fixes a b c d f :: int and e :: real
  assumes "10 \<le> a \<and> a < 300" "20 \<le> b \<and> b < 400" "5 \<le> c \<and> c < 150"
    "2 \<le> d \<and> d < 80" "0.1 \<le> e \<and> e < 5.0" "10 \<le> f \<and> f < 250"
  shows "10.45 \<le> real_of_int a * 0.4 + real_of_int b * 0.2 + real_of_int c * 0.15 +
           real_of_int d * 0.1 + e * 10 + real_of_int f * 0.05"
    and "real_of_int a * 0.4 + real_of_int b * 0.2 + real_of_int c * 0.15 +
           real_of_int d * 0.1 + e * 10 + real_of_int f * 0.05 < 292.2"
proof -
  have a: "10 \<le> real_of_int a" "real_of_int a \<le> 299" using assms(1) by linarith+
  have b: "20 \<le> real_of_int b" "real_of_int b \<le> 399" using assms(2) by linarith+
  have c: "5 \<le> real_of_int c" "real_of_int c \<le> 149" using assms(3) by linarith+
  have d: "2 \<le> real_of_int d" "real_of_int d \<le> 79" using assms(4) by linarith+
  have f: "10 \<le> real_of_int f" "real_of_int f \<le> 249" using assms(6) by linarith+
  show "10.45 \<le> real_of_int a * 0.4 + real_of_int b * 0.2 + real_of_int c * 0.15 +
           real_of_int d * 0.1 + e * 10 + real_of_int f * 0.05"
    using a(1) b(1) c(1) d(1) f(1) assms(5) by simp
  show "real_of_int a * 0.4 + real_of_int b * 0.2 + real_of_int c * 0.15 +
           real_of_int d * 0.1 + e * 10 + real_of_int f * 0.05 < 292.2"
    using a(2) b(2) c(2) d(2) f(2) assms(5) by simp
qed

section \<open>The prediction block\<close>

text \<open>
  C2. For every six pollutant inputs, the prediction block returns a result whose value is
  \<open>min raw 500\<close>, where \<open>raw\<close> is the weighted sum
  \<open>0.4 pm25 + 0.2 pm10 + 0.15 no2 + 0.1 so2 + 10 co + 0.05 o3\<close>. The statement has no
  condition on the inputs: it holds for the non-negative inputs of the claim, and also where
  \<open>raw\<close> is negative, so the value returned is not clamped from below.
\<close>

theorem score_is_min_500:
  "\<exists>v. predict_AQI pm25 pm10 no2 so2 co o3 temp humid wind = Inr v \<and>
       prediction v =
         min (0.4 * pm25 + 0.2 * pm10 + 0.15 * no2 + 0.1 * so2 + 10 * co + 0.05 * o3) 500"
  using predict_AQI_returns[of pm25 pm10 no2 so2 co o3 temp humid wind] by blast

text \<open>
  C3. For every input of the prediction block, the category returned is that of the
  right-closed partition of the clamped value: whatever value \<open>raw\<close> lines 104 to 107
  computed, the value returned is \<open>min raw 500\<close>, and a value of at most 50 is \<open>Good\<close>,
  above 50 and at most 100 is \<open>Moderate\<close>, above 100 and at most 200 is \<open>Poor\<close>, above 200
  and at most 300 is \<open>VeryPoor\<close>, above 300 is \<open>Severe\<close>. In particular \<open>raw = 50\<close>
  gives \<open>Good\<close>, \<open>raw = 100\<close> gives \<open>Moderate\<close>, \<open>raw = 300\<close> gives \<open>VeryPoor\<close>, and
  \<open>raw = 600\<close> gives the value 500 with \<open>Severe\<close>.

  Here \<open>raw\<close> is the value the program computed, not the exact weighted sum of the
  inputs: for the inputs 3, 244, 0, 0, 0, 0 the exact sum is 50, double arithmetic gives a
  value just above 50, and the program answers \<open>Moderate\<close>, as the partition says of a
  value above 50.
\<close>

theorem category_partition:
  "\<exists>v. categorise raw = Inr v \<and>
       prediction v = min raw 500 \<and>
       (prediction v \<le> 50 \<longrightarrow> category v = Good) \<and>
       (50 < prediction v \<and> prediction v \<le> 100 \<longrightarrow> category v = Moderate) \<and>
       (100 < prediction v \<and> prediction v \<le> 200 \<longrightarrow> category v = Poor) \<and>
       (200 < prediction v \<and> prediction v \<le> 300 \<longrightarrow> category v = VeryPoor) \<and>
       (300 < prediction v \<longrightarrow> category v = Severe) \<and>
       (raw = 50 \<longrightarrow> category v = Good) \<and>
       (raw = 100 \<longrightarrow> category v = Moderate) \<and>
       (raw = 300 \<longrightarrow> category v = VeryPoor) \<and>
       (raw = 600 \<longrightarrow> prediction v = 500 \<and> category v = Severe)"
proof -
  from categorise_returns[of raw]
  obtain v where v: "categorise raw = Inr v"
    and p: "prediction v = min raw 500"
    and c: "category v =
         (if prediction v \<le> 50 then Good else if prediction v \<le> 100 then Moderate
          else if prediction v \<le> 200 then Poor else if prediction v \<le> 300 then VeryPoor
          else Severe)"
    by blast
  have b1: "prediction v \<le> 50 \<longrightarrow> category v = Good" using c by simp
  have b2: "50 < prediction v \<and> prediction v \<le> 100 \<longrightarrow> category v = Moderate"
    using c by simp
  have b3: "100 < prediction v \<and> prediction v \<le> 200 \<longrightarrow> category v = Poor"
    using c by simp
  have b4: "200 < prediction v \<and> prediction v \<le> 300 \<longrightarrow> category v = VeryPoor"
    using c by simp
  have b5: "300 < prediction v \<longrightarrow> category v = Severe" using c by simp
  have r1: "raw = 50 \<longrightarrow> category v = Good" using b1 p by simp
  have r2: "raw = 100 \<longrightarrow> category v = Moderate" using b2 p by simp
  have r3: "raw = 300 \<longrightarrow> category v = VeryPoor" using b4 p by simp
  have r4: "raw = 600 \<longrightarrow> prediction v = 500 \<and> category v = Severe" using b5 p by simp
  show ?thesis
    using v p b1 b2 b3 b4 b5 r1 r2 r3 r4 by blast
qed

text \<open>
  The partition at one value in each class, 50, 100, 150, 300 and 600, and at the values
  just above the boundaries 50 and 300.
\<close>

theorem category_partition_witness:
  "(\<exists>v. categorise 50 = Inr v \<and> prediction v = 50 \<and> category v = Good) \<and>
   (\<exists>v. categorise 100 = Inr v \<and> prediction v = 100 \<and> category v = Moderate) \<and>
   (\<exists>v. categorise 150 = Inr v \<and> prediction v = 150 \<and> category v = Poor) \<and>
   (\<exists>v. categorise 300 = Inr v \<and> prediction v = 300 \<and> category v = VeryPoor) \<and>
   (\<exists>v. categorise 600 = Inr v \<and> prediction v = 500 \<and> category v = Severe) \<and>
   (\<exists>v. categorise (50 + 1 / 10 ^ 14) = Inr v \<and> category v = Moderate) \<and>
   (\<exists>v. categorise (300 + 1 / 10 ^ 13) = Inr v \<and> category v = Severe)"
proof (intro conjI)
  show "\<exists>v. categorise 50 = Inr v \<and> prediction v = 50 \<and> category v = Good"
    using category_partition[of 50] by force
  show "\<exists>v. categorise 100 = Inr v \<and> prediction v = 100 \<and> category v = Moderate"
    using category_partition[of 100] by force
  show "\<exists>v. categorise 150 = Inr v \<and> prediction v = 150 \<and> category v = Poor"
    using category_partition[of 150] by force
  show "\<exists>v. categorise 300 = Inr v \<and> prediction v = 300 \<and> category v = VeryPoor"
    using category_partition[of 300] by force
  show "\<exists>v. categorise 600 = Inr v \<and> prediction v = 500 \<and> category v = Severe"
    using category_partition[of 600] by force
  show "\<exists>v. categorise (50 + 1 / 10 ^ 14) = Inr v \<and> category v = Moderate"
    using category_partition[of "50 + 1 / 10 ^ 14"] by force
  show "\<exists>v. categorise (300 + 1 / 10 ^ 13) = Inr v \<and> category v = Severe"
    using category_partition[of "300 + 1 / 10 ^ 13"] by force
qed

text \<open>
  C5 claims that an input with a negative pollutant value fails with an error. The block
  has no check of its inputs: with \<open>pm25 = -1\<close> and the other pollutants 0 it returns the
  value \<open>-0.4\<close> and the category \<open>Good\<close>.
\<close>

theorem negative_input_counterexample:
  "predict_AQI (- 1) 0 0 0 0 0 25 60 2 =
     Inr \<lparr>prediction = - 0.4, category = Good, color = ''green''\<rparr> \<and>
   predict_AQI (- 1) 0 0 0 0 0 25 60 2 \<noteq> Inl ValueError"
  by (simp add: predict_AQI_unfold)

text \<open>
  C5, as the code behaves: for every input in which at least one of the six pollutant
  values is negative, the prediction block does not fail; it returns the value
  \<open>min raw 500\<close> of the weighted sum with the category of that value, as for any other
  input.
\<close>

theorem negative_input_accepted:
  assumes "pm25 < 0 \<or> pm10 < 0 \<or> no2 < 0 \<or> so2 < 0 \<or> co < 0 \<or> o3 < 0"
  shows "\<exists>v. predict_AQI pm25 pm10 no2 so2 co o3 temp humid wind = Inr v \<and>
       prediction v =
         min (0.4 * pm25 + 0.2 * pm10 + 0.15 * no2 + 0.1 * so2 + 10 * co + 0.05 * o3) 500 \<and>
       category v =
         (if prediction v \<le> 50 then Good else if prediction v \<le> 100 then Moderate
          else if prediction v \<le> 200 then Poor else if prediction v \<le> 300 then VeryPoor
          else Severe)"
  by (rule predict_AQI_returns)

theorem negative_input_accepted_witness:
  "((- 1 :: real) < 0 \<or> (0 :: real) < 0) \<and>
   (\<exists>v. predict_AQI (- 1) 0 0 0 0 0 25 60 2 = Inr v \<and> prediction v = - 0.4 \<and>
        category v = Good)"
  using negative_input_accepted[of "- 1" 0 0 0 0 0 25 60 2] by force

section \<open>The generator\<close>

text \<open>
  In this section a row of a frame \<open>df\<close> is an index \<open>i\<close> below the length of its
  columns, and its fields are \<open>PM25 df ! i\<close>, \<open>PM10 df ! i\<close> and so on.
\<close>

text \<open>
  C1. For every row of a frame returned by \<open>load_data\<close>, the \<open>AQI\<close> field is the weighted
  sum \<open>0.4 PM2.5 + 0.2 PM10 + 0.15 NO2 + 0.1 SO2 + 10 CO + 0.05 O3\<close> of the row's pollutant
  fields, clamped to the interval from 0 to 500. In exact arithmetic the two are equal, so
  they are within \<open>10^-9\<close> of each other. The row has all six pollutant fields.
\<close>

theorem generated_AQI_is_clamped_sum:
  assumes "load_data np n g0 = (Inr df, g')" and "i < length (AQI df)"
  shows "i < length (PM25 df) \<and> i < length (PM10 df) \<and> i < length (NO2 df) \<and>
         i < length (SO2 df) \<and> i < length (CO df) \<and> i < length (O3 df) \<and>
         AQI df ! i =
           max 0 (min 500 (0.4 * real_of_int (PM25 df ! i) + 0.2 * real_of_int (PM10 df ! i) +
                           0.15 * real_of_int (NO2 df ! i) + 0.1 * real_of_int (SO2 df ! i) +
                           10 * (CO df ! i) + 0.05 * real_of_int (O3 df ! i))) \<and>
         \<bar>AQI df ! i -
           max 0 (min 500 (0.4 * real_of_int (PM25 df ! i) + 0.2 * real_of_int (PM10 df ! i) +
                           0.15 * real_of_int (NO2 df ! i) + 0.1 * real_of_int (SO2 df ! i) +
                           10 * (CO df ! i) + 0.05 * real_of_int (O3 df ! i)))\<bar> \<le> 1 / 10 ^ 9"
proof -
  note F = load_data_frame[OF assms(1)]
  have i: "i < length (PM25 df)" using assms(2) F(12) by simp
  have eq: "AQI df ! i =
           max 0 (min 500 (0.4 * real_of_int (PM25 df ! i) + 0.2 * real_of_int (PM10 df ! i) +
                           0.15 * real_of_int (NO2 df ! i) + 0.1 * real_of_int (SO2 df ! i) +
                           10 * (CO df ! i) + 0.05 * real_of_int (O3 df ! i)))"
    unfolding load_data_AQI_nth[OF assms] Let_def clip_as_clamp weights_commute
    by (rule refl)
  show ?thesis
    using i F(3,4,5,6,7) eq by simp
qed

text \<open>The first row of the frame of the counter generator for \<open>n = 2\<close>.\<close>

theorem generated_AQI_is_clamped_sum_witness:
  "load_data counter_random 2 7 = (Inr sample_frame, 60) \<and>
   0 < length (AQI sample_frame) \<and>
   AQI sample_frame ! 0 = max 0 (min 500 (0.4 * 52 + 0.2 * 64 + 0.15 * 51 + 0.1 * 50 +
                                           10 * (51 / 20) + 0.05 * 62)) \<and>
   AQI sample_frame ! 0 = 1497 / 20"
  using generated_AQI_is_clamped_sum[OF load_data_sample, of 0] load_data_sample
  by (simp add: sample_frame_def)

text \<open>
  C4 claims that every size \<open>n \<le> 0\<close> fails with an error. \<open>load_data\<close> has no check of
  \<open>n\<close>: for \<open>n = 0\<close> every draw returns an empty column and the function returns a frame
  with no rows.
\<close>

theorem generate_zero_counterexample:
  "load_data counter_random 0 7 = (Inr empty_frame, 42) \<and>
   fst (load_data counter_random 0 7) \<noteq> Inl ValueError"
  using load_data_counter_0 by simp

text \<open>
  C4, as the code behaves: for every \<open>n < 0\<close>, \<open>load_data\<close> fails with \<^verbatim>\<open>ValueError\<close>,
  raised by the first draw on the negative size after the state is seeded, and returns no
  frame; for \<open>n = 0\<close> it does not fail and returns the frame with no rows.
\<close>

theorem generate_size_errors:
  "(n < 0 \<longrightarrow> load_data np n g = (Inl ValueError, seed np 42)) \<and>
   (np_contract np \<longrightarrow> fst (load_data np 0 g) = Inr empty_frame)"
proof (intro conjI impI)
  assume "n < 0"
  then show "load_data np n g = (Inl ValueError, seed np 42)"
    by (rule load_data_negative)
next
  assume c: "np_contract np"
  let ?d = "fst (draw_columns np 0)"
  have run: "fst (load_data np 0 g) = Inr (assign_AQI ?d (AQI_formula ?d))"
    using load_data_contract[OF c, of 0 g] by simp
  note len = draw_columns_lengths[OF c, of 0]
  have "length (AQI_formula ?d) = 0"
    using length_AQI_formula[of ?d] len by simp
  then have "assign_AQI ?d (AQI_formula ?d) = empty_frame"
    using len by (simp add: assign_AQI_def empty_frame_def)
  with run show "fst (load_data np 0 g) = Inr empty_frame" by simp
qed

theorem generate_size_errors_witness:
  "(- 1 :: int) < 0 \<and> load_data counter_random (- 1) 7 = (Inl ValueError, 42) \<and>
   np_contract counter_random \<and> fst (load_data counter_random 0 7) = Inr empty_frame"
  using generate_size_errors[of "- 1" counter_random 7] counter_random_contract
  by (simp add: counter_random_def)

text \<open>
  C6. \<open>load_data\<close> is deterministic: the seed is the constant 42 and the state is seeded
  before the first draw, so the result (and the state left) depends on \<open>n\<close> only, not on
  the random state in which the call starts. In particular a second call with \<open>n = 200\<close>,
  started in the state the first call left, returns what the first call returned.
\<close>

theorem generate_is_deterministic:
  "load_data np n g = load_data np n g' \<and>
   fst (load_data np 200 (snd (load_data np 200 g))) = fst (load_data np 200 g)"
proof -
  have indep: "load_data np m a = load_data np m b" for m a b
  proof (cases "m < 0")
    case True
    then show ?thesis by (simp add: load_data_negative)
  next
    case False
    then have "0 \<le> m" by simp
    then show ?thesis by (simp only: load_data_draws)
  qed
  show ?thesis
    using indep[of n g g'] indep[of 200 "snd (load_data np 200 g)" g] by simp
qed

text \<open>
  C7. With a generator that meets the contract, \<open>load_data 200\<close> returns a frame of exactly
  200 rows whose dates start at 2023-01-01 and end at 2023-07-19, each the day after the
  one before, strictly increasing and without duplicates.
\<close>

theorem generate_200_dates:
  assumes "np_contract np"
  shows "\<exists>df g'. load_data np 200 g = (Inr df, g') \<and>
     length (PM25 df) = 200 \<and> length (PM10 df) = 200 \<and> length (NO2 df) = 200 \<and>
     length (SO2 df) = 200 \<and> length (CO df) = 200 \<and> length (O3 df) = 200 \<and>
     length (Temperature df) = 200 \<and> length (Humidity df) = 200 \<and>
     length (Wind df) = 200 \<and> length (AQI df) = 200 \<and>
     length (date df) = 200 \<and>
     hd (date df) = (2023, 1, 1) \<and> last (date df) = (2023, 7, 19) \<and>
     (\<forall>i. Suc i < 200 \<longrightarrow> date df ! Suc i = next_day (date df ! i)) \<and>
     sorted_wrt date_less (date df) \<and> distinct (date df)"
proof -
  obtain df g' where run: "load_data np 200 g = (Inr df, g')"
    using load_data_contract[OF assms, of 200 g] by simp
  note F = load_data_frame[OF run]
  have dates: "date df = days_from (2023, 1, 1) 200" using F(13) by simp
  have len: "length (PM25 df) = 200"
    using F(11) dates by (simp add: length_days_from)
  have "\<forall>i. Suc i < 200 \<longrightarrow> date df ! Suc i = next_day (date df ! i)"
    unfolding dates by (simp add: days_from_nth_Suc)
  moreover have "hd (date df) = (2023, 1, 1)"
    unfolding dates by (simp add: hd_days_from)
  moreover have "last (date df) = (2023, 7, 19)"
    unfolding dates by (rule last_200)
  moreover have "sorted_wrt date_less (date df)" "distinct (date df)"
    unfolding dates by (rule sorted_days_from, rule distinct_days_from)
  ultimately show ?thesis
    using run len F(3,4,5,6,7,8,9,10,11,12) by simp
qed

theorem generate_200_dates_witness:
  "np_contract counter_random \<and>
   (\<exists>df g'. load_data counter_random 200 7 = (Inr df, g') \<and>
     length (PM25 df) = 200 \<and> length (AQI df) = 200 \<and> length (date df) = 200 \<and>
     hd (date df) = (2023, 1, 1) \<and> last (date df) = (2023, 7, 19) \<and>
     date df ! 31 = next_day (date df ! 30) \<and>
     sorted_wrt date_less (date df) \<and> distinct (date df))"
proof -
  from generate_200_dates[OF counter_random_contract, of 7]
  obtain df g' where h: "load_data counter_random 200 7 = (Inr df, g')"
     "length (PM25 df) = 200" "length (AQI df) = 200" "length (date df) = 200"
     "hd (date df) = (2023, 1, 1)" "last (date df) = (2023, 7, 19)"
     "\<forall>i. Suc i < 200 \<longrightarrow> date df ! Suc i = next_day (date df ! i)"
     "sorted_wrt date_less (date df)" "distinct (date df)"
    by blast
  have "Suc 30 < (200 :: nat)" by simp
  with h(7) have "date df ! Suc 30 = next_day (date df ! 30)" by blast
  moreover have "Suc 30 = 31" by simp
  ultimately have "date df ! 31 = next_day (date df ! 30)" by simp
  with h counter_random_contract show ?thesis by blast
qed

text \<open>
  C8. With a generator that meets the contract, every row of a returned frame has each
  field in its domain: \<open>PM2.5\<close> in \<open>[10, 300)\<close>, \<open>PM10\<close> in \<open>[20, 400)\<close>, \<open>NO2\<close> in
  \<open>[5, 150)\<close>, \<open>SO2\<close> in \<open>[2, 80)\<close>, \<open>CO\<close> in \<open>[0.1, 5.0)\<close>, \<open>O3\<close> in \<open>[10, 250)\<close>,
  \<open>Temperature\<close> in \<open>[10, 40)\<close>, \<open>Humidity\<close> in \<open>[20, 90)\<close>, \<open>Wind\<close> in \<open>[0, 10)\<close>, and
  \<open>AQI\<close> in \<open>[0, 500]\<close>.
\<close>

theorem generated_fields_in_range:
  assumes "np_contract np" and "load_data np n g0 = (Inr df, g')" and "i < length (AQI df)"
  shows "(10 \<le> PM25 df ! i \<and> PM25 df ! i < 300) \<and>
         (20 \<le> PM10 df ! i \<and> PM10 df ! i < 400) \<and>
         (5 \<le> NO2 df ! i \<and> NO2 df ! i < 150) \<and>
         (2 \<le> SO2 df ! i \<and> SO2 df ! i < 80) \<and>
         (0.1 \<le> CO df ! i \<and> CO df ! i < 5.0) \<and>
         (10 \<le> O3 df ! i \<and> O3 df ! i < 250) \<and>
         (10 \<le> Temperature df ! i \<and> Temperature df ! i < 40) \<and>
         (20 \<le> Humidity df ! i \<and> Humidity df ! i < 90) \<and>
         (0 \<le> Wind df ! i \<and> Wind df ! i < 10) \<and>
         (0 \<le> AQI df ! i \<and> AQI df ! i \<le> 500)"
proof -
  note R = load_data_ranges[OF assms]
  have "0 \<le> AQI df ! i \<and> AQI df ! i \<le> 500"
    unfolding load_data_AQI_nth[OF assms(2,3)] Let_def by simp
  with R show ?thesis by blast
qed

text \<open>The second row of the frame of the counter generator for \<open>n = 2\<close>.\<close>

theorem generated_fields_in_range_witness:
  "np_contract counter_random \<and> load_data counter_random 2 7 = (Inr sample_frame, 60) \<and>
   1 < length (AQI sample_frame) \<and>
   PM25 sample_frame ! 1 = 53 \<and> PM10 sample_frame ! 1 = 65 \<and> NO2 sample_frame ! 1 = 52 \<and>
   SO2 sample_frame ! 1 = 51 \<and> CO sample_frame ! 1 = 151 / 40 \<and> O3 sample_frame ! 1 = 63 \<and>
   Temperature sample_frame ! 1 = 65 / 2 \<and> Humidity sample_frame ! 1 = 75 / 2 \<and>
   Wind sample_frame ! 1 = 15 / 2 \<and> AQI sample_frame ! 1 = 88 \<and>
   (10 \<le> PM25 sample_frame ! 1 \<and> PM25 sample_frame ! 1 < 300) \<and>
   (1 / 10 \<le> CO sample_frame ! 1 \<and> CO sample_frame ! 1 < 5) \<and>
   (0 \<le> AQI sample_frame ! 1 \<and> AQI sample_frame ! 1 \<le> 500)"
  using generated_fields_in_range[OF counter_random_contract load_data_sample, of 1]
    counter_random_contract load_data_sample
  by (simp add: sample_frame_def)

text \<open>
  C10. With a generator that meets the contract, the weighted sum of every row of a
  returned frame is at least 10.45 and below 292.2, so the clamp to \<open>[0, 500]\<close> changes
  nothing: the \<open>AQI\<close> field is the weighted sum itself.
\<close>

theorem generated_AQI_never_clamped:
  assumes "np_contract np" and "load_data np n g0 = (Inr df, g')" and "i < length (AQI df)"
  shows "10.45 \<le> 0.4 * real_of_int (PM25 df ! i) + 0.2 * real_of_int (PM10 df ! i) +
                   0.15 * real_of_int (NO2 df ! i) + 0.1 * real_of_int (SO2 df ! i) +
                   10 * (CO df ! i) + 0.05 * real_of_int (O3 df ! i) \<and>
         0.4 * real_of_int (PM25 df ! i) + 0.2 * real_of_int (PM10 df ! i) +
           0.15 * real_of_int (NO2 df ! i) + 0.1 * real_of_int (SO2 df ! i) +
           10 * (CO df ! i) + 0.05 * real_of_int (O3 df ! i) < 292.2 \<and>
         AQI df ! i =
           0.4 * real_of_int (PM25 df ! i) + 0.2 * real_of_int (PM10 df ! i) +
           0.15 * real_of_int (NO2 df ! i) + 0.1 * real_of_int (SO2 df ! i) +
           10 * (CO df ! i) + 0.05 * real_of_int (O3 df ! i)"
proof -
  note R = load_data_ranges[OF assms]
  define raw where
    "raw = real_of_int (PM25 df ! i) * 0.4 + real_of_int (PM10 df ! i) * 0.2 +
           real_of_int (NO2 df ! i) * 0.15 + real_of_int (SO2 df ! i) * 0.1 +
           CO df ! i * 10 + real_of_int (O3 df ! i) * 0.05"
  have lo: "10.45 \<le> raw" and hi: "raw < 292.2"
    unfolding raw_def by (rule raw_bounds[OF R(1,2,3,4,5,6)])+
  have "AQI df ! i = (if raw < 0 then 0 else if 500 < raw then 500 else raw)"
    unfolding load_data_AQI_nth[OF assms(2,3)] Let_def raw_def by (rule refl)
  with lo hi have "AQI df ! i = raw" by simp
  with lo hi show ?thesis
    unfolding weights_commute raw_def by simp
qed

theorem generated_AQI_never_clamped_witness:
  "np_contract counter_random \<and> load_data counter_random 2 7 = (Inr sample_frame, 60) \<and>
   0 < length (AQI sample_frame) \<and>
   (10.45 :: real) \<le> 1497 / 20 \<and> (1497 / 20 :: real) < 292.2 \<and>
   AQI sample_frame ! 0 = 0.4 * 52 + 0.2 * 64 + 0.15 * 51 + 0.1 * 50 + 10 * (51 / 20) + 0.05 * 62"
  using generated_AQI_never_clamped[OF counter_random_contract load_data_sample, of 0]
    counter_random_contract load_data_sample
  by (simp add: sample_frame_def)

section \<open>Temperature, humidity and wind\<close>

text \<open>
  C9. The AQI does not depend on temperature, humidity or wind. The prediction block
  returns the same result whatever these three inputs are. The \<open>AQI\<close> column computed
  from a frame does not change when its three weather columns are replaced. And two frames
  returned by \<open>load_data\<close>, from any generators, sizes and states, that agree on the six
  pollutant columns have the same \<open>AQI\<close> column.
\<close>

theorem AQI_ignores_weather:
  "predict_AQI pm25 pm10 no2 so2 co o3 temp humid wind =
     predict_AQI pm25 pm10 no2 so2 co o3 temp' humid' wind' \<and>
   AQI_formula (d\<lparr>Temperature := ts, Humidity := hs, Wind := ws\<rparr>) = AQI_formula d \<and>
   (load_data np1 n1 g1 = (Inr df1, g1') \<and> load_data np2 n2 g2 = (Inr df2, g2') \<and>
    PM25 df1 = PM25 df2 \<and> PM10 df1 = PM10 df2 \<and> NO2 df1 = NO2 df2 \<and>
    SO2 df1 = SO2 df2 \<and> CO df1 = CO df2 \<and> O3 df1 = O3 df2
      \<longrightarrow> AQI df1 = AQI df2)"
proof (intro conjI impI)
  show "predict_AQI pm25 pm10 no2 so2 co o3 temp humid wind =
     predict_AQI pm25 pm10 no2 so2 co o3 temp' humid' wind'"
    by (simp only: predict_AQI_unfold)
  show "AQI_formula (d\<lparr>Temperature := ts, Humidity := hs, Wind := ws\<rparr>) = AQI_formula d"
    by (rule AQI_formula_cong) simp_all
next
  assume h: "load_data np1 n1 g1 = (Inr df1, g1') \<and> load_data np2 n2 g2 = (Inr df2, g2') \<and>
    PM25 df1 = PM25 df2 \<and> PM10 df1 = PM10 df2 \<and> NO2 df1 = NO2 df2 \<and>
    SO2 df1 = SO2 df2 \<and> CO df1 = CO df2 \<and> O3 df1 = O3 df2"
  then have r1: "load_data np1 n1 g1 = (Inr df1, g1')"
    and r2: "load_data np2 n2 g2 = (Inr df2, g2')" by simp_all
  have "AQI_formula df1 = AQI_formula df2"
    by (rule AQI_formula_cong) (simp_all add: h)
  then show "AQI df1 = AQI df2"
    using load_data_frame(2)[OF r1] load_data_frame(2)[OF r2] by simp
qed

text \<open>
  The two concrete generators draw the same pollutants and different weather for
  \<open>n = 2\<close>.
\<close>

theorem AQI_ignores_weather_witness:
  "load_data counter_random 2 7 = (Inr sample_frame, 60) \<and>
   load_data still_random 2 7 = (Inr still_frame, 60) \<and>
   PM25 sample_frame = PM25 still_frame \<and> PM10 sample_frame = PM10 still_frame \<and>
   NO2 sample_frame = NO2 still_frame \<and> SO2 sample_frame = SO2 still_frame \<and>
   CO sample_frame = CO still_frame \<and> O3 sample_frame = O3 still_frame \<and>
   Temperature sample_frame \<noteq> Temperature still_frame \<and>
   Humidity sample_frame \<noteq> Humidity still_frame \<and>
   Wind sample_frame \<noteq> Wind still_frame \<and>
   AQI sample_frame = AQI still_frame \<and>
   predict_AQI 50 80 30 20 1 40 25 60 2 = predict_AQI 50 80 30 20 1 40 (- 10) 0 20"
  using AQI_ignores_weather[where ?pm25.0 = 50 and ?pm10.0 = 80 and ?no2.0 = 30
      and ?so2.0 = 20 and co = 1 and ?o3.0 = 40 and temp = 25 and humid = 60 and wind = 2
      and temp' = "- 10" and humid' = 0 and wind' = 20
      and d = sample_frame and ts = "[]" and hs = "[]" and ws = "[]"
      and ?np1.0 = counter_random and ?n1.0 = 2 and ?g1.0 = 7 and ?df1.0 = sample_frame
      and g1' = 60 and ?np2.0 = still_random and ?n2.0 = 2 and ?g2.0 = 7
      and ?df2.0 = still_frame and g2' = 60]
    load_data_sample load_data_still
  by (simp add: sample_frame_def still_frame_def)

end
